theory Spec2Isabelle
  imports Main "HOL-Library.Sublist" "HOL-Library.Log_Nat"
begin

section \<open>Python values used by the marketing package\<close>

text \<open>
  The modules \<^verbatim>\<open>marketing/segmentation.py\<close>, \<^verbatim>\<open>marketing/campaigns.py\<close> and
  \<^verbatim>\<open>marketing/analytics.py\<close> keep four CSV files (customers, segments, campaigns, events)
  and work on the rows that \<^verbatim>\<open>csv.DictReader\<close> returns. A row is modelled as a record with
  one field per column. Python \<^verbatim>\<open>str\<close> is \<^typ>\<open>string\<close>, Python \<^verbatim>\<open>int\<close> is \<^typ>\<open>int\<close>, and a
  finite Python \<^verbatim>\<open>float\<close> is the rational number it denotes (comparisons of finite floats are
  exact, so \<open><\<close> on \<^typ>\<open>rat\<close> is the comparison of the code).

  Identifiers reach the functions either as strings (from a CSV row or a URL) or as integers;
  the code normalises them with \<^verbatim>\<open>str(...)\<close>.
\<close>

datatype pyid = IdInt int | IdStr string

definition digit_char :: "nat \<Rightarrow> char" where
  "digit_char d = ''0123456789'' ! d"

function str_nat :: "nat \<Rightarrow> string" where
  "str_nat n = (if n < 10 then [digit_char n] else str_nat (n div 10) @ [digit_char (n mod 10)])"
  by pat_completeness auto
termination
  by (relation "measure id") auto

declare str_nat.simps [simp del]

text \<open>\<^verbatim>\<open>str(i)\<close> for an integer: decimal digits, with a minus sign for negative numbers.\<close>

definition str_int :: "int \<Rightarrow> string" where
  "str_int i = (if i < 0 then CHR ''-'' # str_nat (nat (- i)) else str_nat (nat i))"

fun py_str :: "pyid \<Rightarrow> string" where
  "py_str (IdStr s) = s"
| "py_str (IdInt i) = str_int i"

text \<open>
  A character is a code point below 256, and \<^verbatim>\<open>str.lower()\<close> works on a string of such
  characters one by one: the upper-case letters, \<^verbatim>\<open>A\<close> to \<^verbatim>\<open>Z\<close> (65 to 90) and the accented
  capitals 192 to 222 without the multiplication sign 215, are moved 32 places up to their
  lower-case forms, and every other character is kept.
\<close>

definition is_upper :: "char \<Rightarrow> bool" where
  "is_upper c \<longleftrightarrow>
     (let n = (of_char c :: nat)
      in (65 \<le> n \<and> n \<le> 90) \<or> (192 \<le> n \<and> n \<le> 222 \<and> n \<noteq> 215))"

definition lower_char :: "char \<Rightarrow> char" where
  "lower_char c = (if is_upper c then char_of ((of_char c :: nat) + 32) else c)"

definition py_lower :: "string \<Rightarrow> string" where
  "py_lower s = map lower_char s"

section \<open>The rows of the four collections\<close>

text \<open>
  \<^verbatim>\<open>load_customers\<close> converts \<^verbatim>\<open>age\<close> with \<^verbatim>\<open>int\<close> and \<^verbatim>\<open>total_spent\<close> with \<^verbatim>\<open>float\<close>; the other
  columns stay strings. The \<^verbatim>\<open>location\<close> column is read with \<^verbatim>\<open>customer.get('location', '')\<close>,
  so it may be missing: \<open>None\<close> is a row without that key.
\<close>

record customer =
  customer_id :: string
  name :: string
  email :: string
  age :: int
  location :: "string option"
  total_spent :: rat
  last_purchase_date :: string

text \<open>
  The rule dictionary of a segment, with the value types that \<^verbatim>\<open>routes.new_segment\<close> writes:
  integer ages, a string location and a float spending threshold. \<open>None\<close> is an absent key.
  The key \<^verbatim>\<open>location\<close> of the rules is the field \<open>rule_location\<close> (the customer row has a
  \<open>location\<close> of its own).
\<close>

record rules =
  min_age :: "int option"
  max_age :: "int option"
  rule_location :: "string option"
  min_total_spent :: "rat option"

record segment =
  segment_id :: string
  segment_name :: string
  rules_json :: string
  rules :: rules

text \<open>
  A segment row has the columns \<^verbatim>\<open>segment_id\<close>, \<^verbatim>\<open>segment_name\<close> and \<^verbatim>\<open>rules_json\<close>;
  \<^verbatim>\<open>load_segments\<close> adds the key \<^verbatim>\<open>rules\<close> with the parsed rule dictionary.
\<close>

text \<open>
  A campaign row; all columns are strings. The columns \<^verbatim>\<open>name\<close> and \<^verbatim>\<open>segment_id\<close> are the
  fields \<open>campaign_name\<close> and \<open>campaign_segment_id\<close>.
\<close>

record campaign =
  campaign_id :: string
  campaign_name :: string
  campaign_segment_id :: string
  start_date :: string
  status :: string
  subject :: string
  body :: string

text \<open>
  An event row. The columns \<^verbatim>\<open>campaign_id\<close> and \<^verbatim>\<open>customer_id\<close> are the fields
  \<open>event_campaign_id\<close> and \<open>event_customer_id\<close>.
\<close>

record event =
  event_id :: string
  event_campaign_id :: string
  event_customer_id :: string
  event_type :: string
  timestamp :: string

text \<open>
  The state the functions read and write: each CSV file is \<open>None\<close> while it does not exist
  and \<open>Some rows\<close> afterwards. \<^verbatim>\<open>random.random()\<close> and \<^verbatim>\<open>datetime.now().isoformat()\<close> are
  inputs from outside: the \<open>k\<close>-th call returns \<open>random_values k\<close> (a float in \<open>[0, 1)\<close>) and
  \<open>clock_values k\<close>, and the state counts the calls made so far.
\<close>

record world =
  customers_csv :: "customer list option"
  segments_csv :: "segment list option"
  campaigns_csv :: "campaign list option"
  events_csv :: "event list option"
  random_values :: "nat \<Rightarrow> rat"
  random_calls :: nat
  clock_values :: "nat \<Rightarrow> string"
  clock_calls :: nat

section \<open>Rows the csv reader refuses\<close>

text \<open>
  \<^verbatim>\<open>csv.DictReader\<close> raises \<^verbatim>\<open>csv.Error\<close> on a field longer than
  \<^verbatim>\<open>csv.field_size_limit()\<close>, which is 131072 characters. The functions that read a file
  inside \<^verbatim>\<open>try\<close> ... \<^verbatim>\<open>except\<close> then keep the rows read before that field.
\<close>

definition field_size_limit :: nat where
  "field_size_limit = 131072"



definition event_readable :: "event \<Rightarrow> bool" where
  "event_readable e \<longleftrightarrow>
     list_all (\<lambda>f. length f \<le> field_size_limit)
       [event_id e, event_campaign_id e, event_customer_id e, event_type e, timestamp e]"

section \<open>marketing/segmentation.py\<close>

text \<open>
  \<open>load_customers\<close>, \<open>load_segments\<close>, \<open>load_campaigns\<close> and \<open>load_events\<close> give the rows of a
  file, which is what the source functions return when the reader accepts every row. For a
  file with a refused row, \<open>read_segments\<close> and \<open>read_campaigns\<close> give the rows that
  \<^verbatim>\<open>load_segments()\<close> and \<^verbatim>\<open>load_campaigns()\<close> return: those before the first refused row.
\<close>

definition load_customers :: "world \<Rightarrow> customer list" where
  "load_customers w = (case customers_csv w of None \<Rightarrow> [] | Some rows \<Rightarrow> rows)"

definition load_segments :: "world \<Rightarrow> segment list" where
  "load_segments w = (case segments_csv w of None \<Rightarrow> [] | Some rows \<Rightarrow> rows)"


definition get_segment_by_id :: "world \<Rightarrow> pyid \<Rightarrow> segment option" where
  "get_segment_by_id w sid = find (\<lambda>s. segment_id s = py_str sid) (load_segments w)"

text \<open>
  \<^verbatim>\<open>match_customer_rules\<close>: four guarded checks, each returning \<open>False\<close> early. A check runs
  only when its key is present and its value is truthy (non-zero, non-empty).
\<close>

definition match_customer_rules :: "customer \<Rightarrow> rules \<Rightarrow> bool" where
  "match_customer_rules c rs =
     (if (case min_age rs of None \<Rightarrow> False | Some a \<Rightarrow> a \<noteq> 0 \<and> age c < a) then False
      else if (case max_age rs of None \<Rightarrow> False | Some a \<Rightarrow> a \<noteq> 0 \<and> age c > a) then False
      else if (case rule_location rs of None \<Rightarrow> False
               | Some l \<Rightarrow> l \<noteq> [] \<and>
                   \<not> sublist (py_lower l)
                       (py_lower (case location c of None \<Rightarrow> [] | Some s \<Rightarrow> s))) then False
      else if (case min_total_spent rs of None \<Rightarrow> False | Some t \<Rightarrow> t \<noteq> 0 \<and> total_spent c < t)
        then False
      else True)"

text \<open>
  \<^verbatim>\<open>filter_customers_by_segment\<close>: the loop appends each matching customer to \<open>filtered\<close>.
\<close>

fun filter_loop :: "customer list \<Rightarrow> rules \<Rightarrow> customer list \<Rightarrow> customer list" where
  "filter_loop [] rs filtered = filtered"
| "filter_loop (c # cs) rs filtered =
     (if \<not> match_customer_rules c rs then filter_loop cs rs filtered
      else filter_loop cs rs (filtered @ [c]))"

definition filter_customers_by_segment :: "customer list \<Rightarrow> rules \<Rightarrow> customer list" where
  "filter_customers_by_segment cs rs = filter_loop cs rs []"


definition count_customers_in_segment :: "world \<Rightarrow> segment \<Rightarrow> nat" where
  "count_customers_in_segment w s =
     length (filter_customers_by_segment (load_customers w) (rules s))"

section \<open>marketing/campaigns.py\<close>

definition load_campaigns :: "world \<Rightarrow> campaign list" where
  "load_campaigns w = (case campaigns_csv w of None \<Rightarrow> [] | Some rows \<Rightarrow> rows)"


definition get_campaign_by_id :: "world \<Rightarrow> pyid \<Rightarrow> campaign option" where
  "get_campaign_by_id w cid = find (\<lambda>c. campaign_id c = py_str cid) (load_campaigns w)"


definition get_campaign_customers :: "world \<Rightarrow> pyid \<Rightarrow> customer list" where
  "get_campaign_customers w cid =
     (case get_campaign_by_id w cid of
        None \<Rightarrow> []
      | Some c \<Rightarrow>
          (case get_segment_by_id w (IdStr (campaign_segment_id c)) of
             None \<Rightarrow> []
           | Some s \<Rightarrow> filter_customers_by_segment (load_customers w) (rules s)))"

definition load_events :: "world \<Rightarrow> event list" where
  "load_events w = (case events_csv w of None \<Rightarrow> [] | Some rows \<Rightarrow> rows)"

text \<open>
  \<^verbatim>\<open>generate_event_id\<close> reads all rows with \<^verbatim>\<open>list(reader)\<close> inside \<^verbatim>\<open>try\<close>; when the reader
  refuses a row, the bare \<^verbatim>\<open>except\<close> passes on to the final \<^verbatim>\<open>return '1'\<close>.
\<close>

definition generate_event_id :: "world \<Rightarrow> string" where
  "generate_event_id w =
     (case events_csv w of
        None \<Rightarrow> ''1''
      | Some rows \<Rightarrow>
          if list_all event_readable rows
          then (if rows \<noteq> [] then py_str (IdInt (int (length rows) + 1)) else ''1'')
          else ''1'')"

text \<open>
  \<^verbatim>\<open>create_event\<close> appends one row (creating the file when it is missing) and reads the clock
  once. The CSV writer stores \<^verbatim>\<open>str(campaign_id)\<close>.
\<close>

definition create_event :: "pyid \<Rightarrow> string \<Rightarrow> string \<Rightarrow> world \<Rightarrow> world" where
  "create_event cid cust ty w =
     (let row = \<lparr>event_id = generate_event_id w, event_campaign_id = py_str cid,
                 event_customer_id = cust, event_type = ty,
                 timestamp = clock_values w (clock_calls w)\<rparr>
      in w\<lparr>events_csv := Some (load_events w @ [row]), clock_calls := Suc (clock_calls w)\<rparr>)"

definition update_campaign_status :: "pyid \<Rightarrow> string \<Rightarrow> world \<Rightarrow> world" where
  "update_campaign_status cid new_status w =
     (case campaigns_csv w of
        None \<Rightarrow> w
      | Some rows \<Rightarrow>
          w\<lparr>campaigns_csv :=
              Some (map (\<lambda>row. if campaign_id row = py_str cid
                                then row\<lparr>status := new_status\<rparr> else row) rows)\<rparr>)"

text \<open>One call of \<^verbatim>\<open>random.random()\<close>.\<close>

definition random_random :: "world \<Rightarrow> rat \<times> world" where
  "random_random w = (random_values w (random_calls w), w\<lparr>random_calls := Suc (random_calls w)\<rparr>)"

text \<open>
  The float literals \<^verbatim>\<open>0.7\<close>, \<^verbatim>\<open>0.4\<close> and \<^verbatim>\<open>0.3\<close> of \<^verbatim>\<open>send_campaign\<close>, as the binary64
  values they denote (\<^verbatim>\<open>0x1.6666666666666p-1\<close>, \<^verbatim>\<open>0x1.999999999999ap-2\<close>,
  \<^verbatim>\<open>0x1.3333333333333p-2\<close>).
\<close>

definition p_opened :: rat where "p_opened = 6305039478318694 / 2 ^ 53"
definition p_clicked :: rat where "p_clicked = 7205759403792794 / 2 ^ 54"
definition p_converted :: rat where "p_converted = 5404319552844595 / 2 ^ 54"

text \<open>The body of the loop of \<^verbatim>\<open>send_campaign\<close>, for one customer.\<close>

definition send_to_customer :: "pyid \<Rightarrow> customer \<Rightarrow> world \<Rightarrow> world" where
  "send_to_customer cid c w =
     (let w1 = create_event cid (customer_id c) ''sent'' w;
          (r1, w2) = random_random w1
      in if r1 < p_opened then
           (let w3 = create_event cid (customer_id c) ''opened'' w2;
                (r2, w4) = random_random w3
            in if r2 < p_clicked then
                 (let w5 = create_event cid (customer_id c) ''clicked'' w4;
                      (r3, w6) = random_random w5
                  in if r3 < p_converted
                     then create_event cid (customer_id c) ''converted'' w6
                     else w6)
               else w4)
         else w2)"

fun send_loop :: "pyid \<Rightarrow> customer list \<Rightarrow> world \<Rightarrow> world" where
  "send_loop cid [] w = w"
| "send_loop cid (c # cs) w = send_loop cid cs (send_to_customer cid c w)"

definition send_campaign :: "pyid \<Rightarrow> world \<Rightarrow> nat \<times> world" where
  "send_campaign cid w =
     (case get_campaign_by_id w cid of
        None \<Rightarrow> (0, w)
      | Some c \<Rightarrow>
          if status c \<noteq> ''draft'' then (0, w)
          else
            (let customers = get_campaign_customers w cid;
                 w1 = send_loop cid customers w;
                 w2 = update_campaign_status cid ''sent'' w1
             in (length customers, w2)))"

section \<open>marketing/analytics.py\<close>

text \<open>
  The rates are Python floats. A finite binary64 value is modelled by the rational number it
  denotes, and each float operation returns the exact result rounded to the nearest value
  with a 53-bit significand, ties to the even significand. The counts are lengths of Python
  lists and so below \<open>2^63\<close>; in that range no quotient or product of the rate
  computation overflows or becomes subnormal, so the exponent is not bounded in the model.

  \<open>round_half_even\<close> rounds to the nearest integer, a tie to the even one.
\<close>

definition round_half_even :: "rat \<Rightarrow> int" where
  "round_half_even x =
     (let f = \<lfloor>x\<rfloor>; d = x - of_int f
      in if d < 1 / 2 then f else if d > 1 / 2 then f + 1 else if even f then f else f + 1)"

text \<open>\<open>ilog2 x\<close> is the integer \<open>k\<close> with \<open>2^k \<le> x < 2^(k+1)\<close>, for positive \<open>x\<close>.\<close>

definition ilog2 :: "rat \<Rightarrow> int" where
  "ilog2 x =
     (let k = bitlen (fst (quotient_of x)) - bitlen (snd (quotient_of x))
      in if x < power_int 2 k then k - 1 else k)"

text \<open>The nearest binary64 value of a rational number.\<close>

definition float_round :: "rat \<Rightarrow> rat" where
  "float_round x =
     (if x = 0 then 0
      else (let e = ilog2 \<bar>x\<bar> - 52
            in of_int (round_half_even (x / power_int 2 e)) * power_int 2 e))"

text \<open>
  \<^verbatim>\<open>a / b\<close> on two Python integers (the correctly rounded quotient), \<^verbatim>\<open>x * y\<close> on floats, and
  \<^verbatim>\<open>round(x, 2)\<close>: the float nearest to the decimal with two places nearest to \<open>x\<close> (ties to
  the even last place). For the integer \<^verbatim>\<open>0\<close> of the \<^verbatim>\<open>else\<close> branches, \<^verbatim>\<open>round(0, 2)\<close> is \<open>0\<close>.
\<close>

definition py_truediv :: "int \<Rightarrow> int \<Rightarrow> rat" where
  "py_truediv a b = float_round (of_int a / of_int b)"

definition py_float_mul :: "rat \<Rightarrow> rat \<Rightarrow> rat" where
  "py_float_mul x y = float_round (x * y)"

definition py_round2 :: "rat \<Rightarrow> rat" where
  "py_round2 x = float_round (of_int (round_half_even (x * 100)) / 100)"

text \<open>
  The dictionary that \<^verbatim>\<open>get_campaign_metrics\<close> returns; its key \<^verbatim>\<open>campaign_id\<close> is the field
  \<open>metrics_campaign_id\<close>.
\<close>

record metrics =
  metrics_campaign_id :: pyid
  sent :: nat
  opened :: nat
  clicked :: nat
  converted :: nat
  open_rate :: rat
  click_rate :: rat
  conversion_rate :: rat

definition get_campaign_metrics :: "world \<Rightarrow> pyid \<Rightarrow> metrics" where
  "get_campaign_metrics w cid =
     (let events = load_events w;
          campaign_events = filter (\<lambda>e. event_campaign_id e = py_str cid) events;
          sent_count = length (filter (\<lambda>e. event_type e = ''sent'') campaign_events);
          opened_count = length (filter (\<lambda>e. event_type e = ''opened'') campaign_events);
          clicked_count = length (filter (\<lambda>e. event_type e = ''clicked'') campaign_events);
          converted_count = length (filter (\<lambda>e. event_type e = ''converted'') campaign_events);
          open_rate = (if sent_count > 0
                       then py_float_mul (py_truediv (int opened_count) (int sent_count)) 100
                       else 0);
          click_rate = (if sent_count > 0
                        then py_float_mul (py_truediv (int clicked_count) (int sent_count)) 100
                        else 0);
          conversion_rate = (if sent_count > 0
                             then py_float_mul (py_truediv (int converted_count) (int sent_count)) 100
                             else 0)
      in \<lparr>metrics_campaign_id = cid, sent = sent_count, opened = opened_count,
          clicked = clicked_count, converted = converted_count,
          open_rate = py_round2 open_rate, click_rate = py_round2 click_rate,
          conversion_rate = py_round2 conversion_rate\<rparr>)"

text \<open>The number of events of a collection with a given campaign id and event type.\<close>

definition count_events :: "event list \<Rightarrow> string \<Rightarrow> string \<Rightarrow> nat" where
  "count_events evs camp ty =
     length (filter (\<lambda>e. event_campaign_id e = camp \<and> event_type e = ty) evs)"

section \<open>Properties of the recorded events\<close>

text \<open>
  The funnel of event types, in the order in which \<^verbatim>\<open>send_campaign\<close> records them for one
  customer.
\<close>

definition funnel_chain :: "string list" where
  "funnel_chain = [''sent'', ''opened'', ''clicked'', ''converted'']"

text \<open>
  A block is what one pass of the loop records: a non-empty initial part of the funnel, all
  for the same campaign and customer.
\<close>

definition funnel_block :: "string \<Rightarrow> string \<Rightarrow> event list \<Rightarrow> bool" where
  "funnel_block camp cust b \<longleftrightarrow>
     b \<noteq> [] \<and> prefix (map event_type b) funnel_chain
     \<and> (\<forall>e \<in> set b. event_campaign_id e = camp \<and> event_customer_id e = cust)"

text \<open>
  \<open>preceded_by earlier later seen evs\<close>: walking through \<open>evs\<close> after the events \<open>seen\<close>,
  every event of type \<open>later\<close> comes after an event of type \<open>earlier\<close> for the same
  campaign and customer.
\<close>

fun preceded_by :: "string \<Rightarrow> string \<Rightarrow> event list \<Rightarrow> event list \<Rightarrow> bool" where
  "preceded_by earlier later seen [] = True"
| "preceded_by earlier later seen (e # es) =
     ((event_type e = later \<longrightarrow>
         (\<exists>e' \<in> set seen. event_type e' = earlier
             \<and> event_campaign_id e' = event_campaign_id e
             \<and> event_customer_id e' = event_customer_id e))
      \<and> preceded_by earlier later (seen @ [e]) es)"

section \<open>Sequences of operations\<close>






section \<open>Letters that differ only in case\<close>


section \<open>Example data\<close>

text \<open>A rule-set with no key set, two customers, one segment and three campaigns.\<close>

definition no_rules :: rules where
  "no_rules = \<lparr>min_age = None, max_age = None, rule_location = None, min_total_spent = None\<rparr>"

definition alice :: customer where
  "alice = \<lparr>customer_id = ''1'', name = ''Alice'', email = ''alice@test.com'', age = 28,
            location = Some ''ankara city'', total_spent = 1500,
            last_purchase_date = ''2024-11-01''\<rparr>"

definition bob :: customer where
  "bob = \<lparr>customer_id = ''2'', name = ''Bob'', email = ''bob@test.com'', age = 35,
          location = Some ''Istanbul'', total_spent = 3000,
          last_purchase_date = ''2024-11-15''\<rparr>"

definition adults :: segment where
  \<open>adults = \<lparr>segment_id = ''1'', segment_name = ''Adults'',
             rules_json = ''{"min_age": 20}'', rules = no_rules\<lparr>min_age := Some 20\<rparr>\<rparr>\<close>

definition camp1 :: campaign where
  "camp1 = \<lparr>campaign_id = ''1'', campaign_name = ''Test Campaign'', campaign_segment_id = ''1'',
            start_date = ''2024-12-01'', status = ''draft'', subject = ''Test Subject'',
            body = ''Test Body''\<rparr>"

definition camp2 :: campaign where
  "camp2 = \<lparr>campaign_id = ''2'', campaign_name = ''Bad Campaign'',
            campaign_segment_id = ''9999'', start_date = ''2024-12-01'', status = ''draft'',
            subject = ''Test'', body = ''Test''\<rparr>"

definition camp3 :: campaign where
  "camp3 = \<lparr>campaign_id = ''3'', campaign_name = ''Old Campaign'', campaign_segment_id = ''1'',
            start_date = ''2024-11-01'', status = ''sent'', subject = ''Old'', body = ''Old''\<rparr>"

text \<open>
  The random source of the example returns 0.5, 0.25 and then 0.9 for ever: the first customer
  opens and clicks but does not convert, the second does not open.
\<close>

definition demo_world :: world where
  "demo_world =
     \<lparr>customers_csv = Some [alice, bob], segments_csv = Some [adults],
      campaigns_csv = Some [camp1, camp2, camp3], events_csv = None,
      random_values = (\<lambda>k. if k = 0 then 1 / 2 else if k = 1 then 1 / 4 else 9 / 10),
      random_calls = 0,
      clock_values = (\<lambda>k. ''2024-12-01T09:00:00''), clock_calls = 0\<rparr>"






text \<open>
  Events of campaign 7: 10 sent, 7 opened, 4 clicked and 2 converted.
\<close>

definition funnel_event :: "string \<Rightarrow> nat \<Rightarrow> event" where
  "funnel_event ty k =
     \<lparr>event_id = str_nat (Suc k), event_campaign_id = ''7'', event_customer_id = str_nat (Suc k),
      event_type = ty, timestamp = ''2024-12-01T09:00:00''\<rparr>"

definition metrics_world :: world where
  "metrics_world =
     demo_world\<lparr>events_csv := Some (map (funnel_event ''sent'') [0..<10]
        @ map (funnel_event ''opened'') [0..<7] @ map (funnel_event ''clicked'') [0..<4]
        @ map (funnel_event ''converted'') [0..<2])\<rparr>"

text \<open>
  Events of campaign 7 in a second state: 3 sent, 2 opened and 1 clicked.
\<close>

definition thirds_world :: world where
  "thirds_world =
     demo_world\<lparr>events_csv := Some (map (funnel_event ''sent'') [0..<3]
        @ map (funnel_event ''opened'') [0..<2] @ map (funnel_event ''clicked'') [0..<1])\<rparr>"

text \<open>
  A second customer row with the customer id of the first, and a state whose customer file
  holds both; its random source always returns 0.9, so nobody opens.
\<close>

definition carol :: customer where
  "carol = \<lparr>customer_id = ''1'', name = ''Carol'', email = ''carol@test.com'', age = 41,
            location = Some ''Izmir'', total_spent = 500, last_purchase_date = ''2024-10-20''\<rparr>"

definition twin_world :: world where
  "twin_world = demo_world\<lparr>customers_csv := Some [alice, carol], random_values := (\<lambda>k. 9 / 10)\<rparr>"

section \<open>Frame lemmas\<close>

lemma create_event_frame [simp]:
  "customers_csv (create_event cid cu ty w) = customers_csv w"
  "segments_csv (create_event cid cu ty w) = segments_csv w"
  "campaigns_csv (create_event cid cu ty w) = campaigns_csv w"
  "random_values (create_event cid cu ty w) = random_values w"
  "random_calls (create_event cid cu ty w) = random_calls w"
  "clock_values (create_event cid cu ty w) = clock_values w"
  by (simp_all add: create_event_def Let_def)

lemma random_random_frame [simp]:
  "customers_csv (snd (random_random w)) = customers_csv w"
  "segments_csv (snd (random_random w)) = segments_csv w"
  "campaigns_csv (snd (random_random w)) = campaigns_csv w"
  "events_csv (snd (random_random w)) = events_csv w"
  "random_values (snd (random_random w)) = random_values w"
  "clock_values (snd (random_random w)) = clock_values w"
  "clock_calls (snd (random_random w)) = clock_calls w"
  by (simp_all add: random_random_def)

lemma send_to_customer_frame [simp]:
  "customers_csv (send_to_customer cid c w) = customers_csv w"
  "segments_csv (send_to_customer cid c w) = segments_csv w"
  "campaigns_csv (send_to_customer cid c w) = campaigns_csv w"
  "random_values (send_to_customer cid c w) = random_values w"
  "clock_values (send_to_customer cid c w) = clock_values w"
  by (simp_all add: send_to_customer_def Let_def split_beta)

lemma send_loop_frame [simp]:
  "customers_csv (send_loop cid cs w) = customers_csv w"
  "segments_csv (send_loop cid cs w) = segments_csv w"
  "campaigns_csv (send_loop cid cs w) = campaigns_csv w"
  "random_values (send_loop cid cs w) = random_values w"
  "clock_values (send_loop cid cs w) = clock_values w"
  by (induction cs arbitrary: w) simp_all

lemma update_campaign_status_events [simp]:
  "events_csv (update_campaign_status cid s w) = events_csv w"
  by (simp add: update_campaign_status_def split: option.splits)



lemma get_campaign_send_loop [simp]:
  "get_campaign_by_id (send_loop cid' cs w) cid = get_campaign_by_id w cid"
  by (simp add: get_campaign_by_id_def load_campaigns_def)


lemma send_campaign_draft:
  "get_campaign_by_id w cid = Some c \<Longrightarrow> status c = ''draft'' \<Longrightarrow>
   send_campaign cid w =
     (length (get_campaign_customers w cid),
      update_campaign_status cid ''sent'' (send_loop cid (get_campaign_customers w cid) w))"
  by (simp add: send_campaign_def Let_def)

lemma filter_loop_eq:
  "filter_loop cs rs acc = acc @ filter (\<lambda>c. match_customer_rules c rs) cs"
  by (induction cs arbitrary: acc) simp_all

lemma match_no_rules: "match_customer_rules c no_rules"
  by (simp add: match_customer_rules_def no_rules_def)

text \<open>Lookups in the example data.\<close>

lemma demo_lookups:
  "get_campaign_by_id demo_world (IdStr ''1'') = Some camp1"
  "get_campaign_by_id demo_world (IdStr ''2'') = Some camp2"
  "get_campaign_by_id demo_world (IdStr ''3'') = Some camp3"
  "get_segment_by_id demo_world (IdStr ''1'') = Some adults"
  "get_segment_by_id demo_world (IdStr ''9999'') = None"
  by (simp_all add: get_campaign_by_id_def get_segment_by_id_def load_campaigns_def
      load_segments_def demo_world_def camp1_def camp2_def camp3_def adults_def)

section \<open>Segmentation\<close>

text \<open>
  Claim C4. For every customer list and rule-set, \<^verbatim>\<open>filter_customers_by_segment\<close> returns the
  customers that match the rules, as a subsequence of the input in the input's order; for
  the rule-set with no key set it returns the input list unchanged.
\<close>

theorem filter_customers_by_segment_subseq:
  "filter_customers_by_segment cs rs = filter (\<lambda>c. match_customer_rules c rs) cs
   \<and> subseq (filter_customers_by_segment cs rs) cs
   \<and> filter_customers_by_segment cs no_rules = cs"
  by (simp add: filter_customers_by_segment_def filter_loop_eq match_no_rules)

text \<open>
  Claim C5, as stated, fails for a zero threshold: the rule \<^verbatim>\<open>{max_age: 0}\<close> is skipped by the
  truthiness guard, so a customer of age 28 matches although \<open>28 > 0\<close>.
\<close>

theorem match_zero_threshold_counterexample:
  "match_customer_rules alice (no_rules\<lparr>max_age := Some 0\<rparr>) \<and> age alice > 0"
  by (simp add: match_customer_rules_def no_rules_def alice_def)

text \<open>
  Claim C5, amended. For every customer \<open>c\<close> and every non-zero threshold: \<^verbatim>\<open>{min_age: a}\<close>
  matches iff \<open>age c \<ge> a\<close>, \<^verbatim>\<open>{max_age: a}\<close> rejects iff \<open>age c > a\<close>, and
  \<^verbatim>\<open>{min_total_spent: t}\<close> rejects iff \<open>total_spent c < t\<close>. A zero or empty-string value
  for a key behaves like the absent key, and a customer matches a rule-set iff it fails
  none of the constraints that are present with a truthy value.
\<close>

theorem match_customer_rules_thresholds:
  assumes "a \<noteq> 0" and "t \<noteq> 0"
  shows "(match_customer_rules c (no_rules\<lparr>min_age := Some a\<rparr>) \<longleftrightarrow> age c \<ge> a)
    \<and> (match_customer_rules c (no_rules\<lparr>max_age := Some a\<rparr>) \<longleftrightarrow> \<not> age c > a)
    \<and> (match_customer_rules c (no_rules\<lparr>min_total_spent := Some t\<rparr>) \<longleftrightarrow> \<not> total_spent c < t)
    \<and> match_customer_rules c (rs\<lparr>min_age := Some 0\<rparr>)
        = match_customer_rules c (rs\<lparr>min_age := None\<rparr>)
    \<and> match_customer_rules c (rs\<lparr>max_age := Some 0\<rparr>)
        = match_customer_rules c (rs\<lparr>max_age := None\<rparr>)
    \<and> match_customer_rules c (rs\<lparr>rule_location := Some []\<rparr>)
        = match_customer_rules c (rs\<lparr>rule_location := None\<rparr>)
    \<and> match_customer_rules c (rs\<lparr>min_total_spent := Some 0\<rparr>)
        = match_customer_rules c (rs\<lparr>min_total_spent := None\<rparr>)
    \<and> (match_customer_rules c rs \<longleftrightarrow>
          (\<forall>x. min_age rs = Some x \<and> x \<noteq> 0 \<longrightarrow> \<not> age c < x)
        \<and> (\<forall>x. max_age rs = Some x \<and> x \<noteq> 0 \<longrightarrow> \<not> age c > x)
        \<and> (\<forall>l. rule_location rs = Some l \<and> l \<noteq> [] \<longrightarrow>
               sublist (py_lower l) (py_lower (case location c of None \<Rightarrow> [] | Some s \<Rightarrow> s)))
        \<and> (\<forall>x. min_total_spent rs = Some x \<and> x \<noteq> 0 \<longrightarrow> \<not> total_spent c < x))"
  using assms
  by (auto simp add: match_customer_rules_def no_rules_def split: option.splits)

theorem match_customer_rules_thresholds_witness:
  "(20::int) \<noteq> 0 \<and> (2000::rat) \<noteq> 0
   \<and> match_customer_rules alice (no_rules\<lparr>min_age := Some 20\<rparr>)
   \<and> \<not> match_customer_rules alice (no_rules\<lparr>max_age := Some 20\<rparr>)
   \<and> \<not> match_customer_rules alice (no_rules\<lparr>min_total_spent := Some 2000\<rparr>)"
  using match_customer_rules_thresholds [of 20 2000 alice no_rules]
  by (simp add: alice_def)







section \<open>The campaign status rewrite\<close>

text \<open>
  Claim C10. For every campaign collection, campaign id and new status,
  \<^verbatim>\<open>update_campaign_status\<close> keeps the number and order of the campaign rows and every field
  other than \<open>status\<close> of every row; rows whose \<open>campaign_id\<close> differs from the string form of
  the given id are unchanged, and the rows with that id get the new status.
\<close>

theorem update_campaign_status_frame:
  "length (load_campaigns (update_campaign_status cid new_status w)) = length (load_campaigns w)
   \<and> (\<forall>i < length (load_campaigns w).
         load_campaigns (update_campaign_status cid new_status w) ! i
           = (load_campaigns w ! i)
               \<lparr>status := status (load_campaigns (update_campaign_status cid new_status w) ! i)\<rparr>
       \<and> (campaign_id (load_campaigns w ! i) \<noteq> py_str cid \<longrightarrow>
            load_campaigns (update_campaign_status cid new_status w) ! i = load_campaigns w ! i)
       \<and> (campaign_id (load_campaigns w ! i) = py_str cid \<longrightarrow>
            load_campaigns (update_campaign_status cid new_status w) ! i
              = (load_campaigns w ! i)\<lparr>status := new_status\<rparr>))"
  by (auto simp add: update_campaign_status_def load_campaigns_def split: option.splits)

theorem update_campaign_status_frame_witness:
  "(1::nat) < length (load_campaigns demo_world)
   \<and> campaign_id (load_campaigns demo_world ! 1) = py_str (IdInt 2)
   \<and> campaign_id (load_campaigns demo_world ! 0) \<noteq> py_str (IdInt 2)
   \<and> load_campaigns (update_campaign_status (IdInt 2) ''sent'' demo_world) ! 1
       = camp2\<lparr>status := ''sent''\<rparr>
   \<and> load_campaigns (update_campaign_status (IdInt 2) ''sent'' demo_world) ! 0 = camp1"
proof -
  have s: "str_int 2 = ''2''"
    by (simp add: str_int_def str_nat.simps digit_char_def)
  have l: "load_campaigns demo_world = [camp1, camp2, camp3]"
    by (simp add: load_campaigns_def demo_world_def)
  have i: "campaign_id camp1 = ''1''" "campaign_id camp2 = ''2''"
    by (simp_all add: camp1_def camp2_def)
  note t = update_campaign_status_frame
    [of "IdInt 2" "''sent''" demo_world, THEN conjunct2, rule_format]
  show ?thesis
    using t [of 1] t [of 0]
    by (simp add: s l i)
qed

section \<open>Sending a campaign\<close>








section \<open>The order of the funnel events\<close>

lemma load_events_create_event:
  "load_events (create_event cid cu ty w) =
     load_events w @ [\<lparr>event_id = generate_event_id w, event_campaign_id = py_str cid,
        event_customer_id = cu, event_type = ty, timestamp = clock_values w (clock_calls w)\<rparr>]"
  by (simp add: create_event_def load_events_def Let_def)

lemma load_events_random [simp]: "load_events (snd (random_random w)) = load_events w"
  by (simp add: load_events_def)

lemma send_to_customer_block:
  "\<exists>b. load_events (send_to_customer cid c w) = load_events w @ b
       \<and> funnel_block (py_str cid) (customer_id c) b"
  by (simp add: send_to_customer_def Let_def split_beta load_events_create_event
      funnel_block_def funnel_chain_def)

lemma send_loop_blocks:
  "\<exists>blocks. load_events (send_loop cid cs w) = load_events w @ concat blocks
     \<and> list_all2 (\<lambda>cu b. funnel_block (py_str cid) (customer_id cu) b) cs blocks"
proof (induction cs arbitrary: w)
  case Nil
  show ?case by simp
next
  case (Cons c cs)
  obtain b where b: "load_events (send_to_customer cid c w) = load_events w @ b"
    "funnel_block (py_str cid) (customer_id c) b"
    using send_to_customer_block by blast
  obtain blocks where bl:
    "load_events (send_loop cid cs (send_to_customer cid c w))
       = load_events (send_to_customer cid c w) @ concat blocks"
    "list_all2 (\<lambda>cu b. funnel_block (py_str cid) (customer_id cu) b) cs blocks"
    using Cons.IH by blast
  have "load_events (send_loop cid (c # cs) w) = load_events w @ concat (b # blocks)"
    using b(1) bl(1) by simp
  moreover have "list_all2 (\<lambda>cu b. funnel_block (py_str cid) (customer_id cu) b) (c # cs) (b # blocks)"
    using b(2) bl(2) by simp
  ultimately show ?case by blast
qed

lemma blocks_members:
  "list_all2 (\<lambda>cu b. funnel_block k (customer_id cu) b) cs blocks \<Longrightarrow>
   e \<in> set (concat blocks) \<Longrightarrow>
   event_campaign_id e = k \<and> event_customer_id e \<in> customer_id ` set cs"
  by (induction rule: list_all2_induct) (auto simp add: funnel_block_def)

lemma blocks_pair_prefix:
  "list_all2 (\<lambda>cu b. funnel_block k (customer_id cu) b) cs blocks \<Longrightarrow>
   distinct (map customer_id cs) \<Longrightarrow>
   prefix (map event_type
      (filter (\<lambda>e. event_campaign_id e = k1 \<and> event_customer_id e = k2) (concat blocks)))
     funnel_chain"
proof (induction rule: list_all2_induct)
  case Nil
  show ?case by simp
next
  case (Cons cu cs b blocks)
  let ?P = "\<lambda>e. event_campaign_id e = k1 \<and> event_customer_id e = k2"
  show ?case
  proof (cases "k1 = k \<and> k2 = customer_id cu")
    case True
    have "filter ?P b = b"
      using Cons.hyps(1) True by (auto simp add: funnel_block_def filter_id_conv)
    moreover have "filter ?P (concat blocks) = []"
    proof -
      have "\<not> ?P e" if "e \<in> set (concat blocks)" for e
        using blocks_members [OF Cons.hyps(2) that] Cons.prems True by auto
      thus ?thesis by (simp add: filter_empty_conv)
    qed
    ultimately show ?thesis
      using Cons.hyps(1) by (simp add: funnel_block_def)
  next
    case False
    have "filter ?P b = []"
      using Cons.hyps(1) False by (auto simp add: funnel_block_def filter_empty_conv)
    thus ?thesis using Cons.IH Cons.prems by simp
  qed
qed

lemma preceded_by_append:
  "preceded_by a b seen (xs @ ys) \<longleftrightarrow> preceded_by a b seen xs \<and> preceded_by a b (seen @ xs) ys"
  by (induction xs arbitrary: seen) auto

lemma prefix_chain_cases:
  "prefix ts funnel_chain \<Longrightarrow>
   ts = [] \<or> ts = [''sent''] \<or> ts = [''sent'', ''opened'']
   \<or> ts = [''sent'', ''opened'', ''clicked''] \<or> ts = funnel_chain"
  by (auto simp add: funnel_chain_def prefix_Cons)

lemma block_preceded:
  assumes "funnel_block k cu b"
  shows "preceded_by ''sent'' ''opened'' seen b"
    and "preceded_by ''opened'' ''clicked'' seen b"
    and "preceded_by ''clicked'' ''converted'' seen b"
proof -
  from assms have p: "prefix (map event_type b) funnel_chain"
    and m: "\<forall>e \<in> set b. event_campaign_id e = k \<and> event_customer_id e = cu"
    by (simp_all add: funnel_block_def)
  from prefix_chain_cases [OF p] m
  show "preceded_by ''sent'' ''opened'' seen b"
    and "preceded_by ''opened'' ''clicked'' seen b"
    and "preceded_by ''clicked'' ''converted'' seen b"
    by (auto simp add: funnel_chain_def map_eq_Cons_conv)
qed

lemma blocks_preceded:
  assumes "list_all2 (\<lambda>cu b. funnel_block k (customer_id cu) b) cs blocks"
  shows "preceded_by ''sent'' ''opened'' seen (concat blocks)"
    and "preceded_by ''opened'' ''clicked'' seen (concat blocks)"
    and "preceded_by ''clicked'' ''converted'' seen (concat blocks)"
  using assms
  by (induction arbitrary: seen rule: list_all2_induct)
    (simp_all add: preceded_by_append block_preceded)

lemma demo_audience:
  "get_campaign_customers demo_world (IdStr ''1'') = [alice, bob]"
proof -
  have s: "campaign_segment_id camp1 = ''1''" by (simp add: camp1_def)
  have m: "match_customer_rules alice (rules adults)" "match_customer_rules bob (rules adults)"
    by (simp_all add: match_customer_rules_def adults_def no_rules_def alice_def bob_def)
  have c: "load_customers demo_world = [alice, bob]"
    by (simp add: load_customers_def demo_world_def)
  show ?thesis
    by (simp add: get_campaign_customers_def demo_lookups s c m filter_customers_by_segment_def)
qed

lemma send_to_customer_unopened:
  assumes "\<not> random_values w (random_calls w) < p_opened"
  shows "load_events (send_to_customer cid c w) =
     load_events w @ [\<lparr>event_id = generate_event_id w, event_campaign_id = py_str cid,
        event_customer_id = customer_id c, event_type = ''sent'',
        timestamp = clock_values w (clock_calls w)\<rparr>]"
  using assms
  by (simp add: send_to_customer_def Let_def split_beta random_random_def create_event_def
      load_events_def)

text \<open>
  Claim C7, as stated, fails when two customers of the audience share a customer id: both
  passes of the loop record a sent event for the same (campaign_id, customer_id) pair, and
  sent, sent is not a prefix of the chain.
\<close>

theorem send_campaign_shared_id_counterexample:
  "get_campaign_by_id twin_world (IdStr ''1'') = Some camp1
   \<and> status camp1 = ''draft''
   \<and> map event_type
       (filter (\<lambda>e. event_campaign_id e = ''1'' \<and> event_customer_id e = ''1'')
          (load_events (snd (send_campaign (IdStr ''1'') twin_world))))
       = [''sent'', ''sent'']
   \<and> \<not> prefix [''sent'', ''sent''] funnel_chain"
proof -
  have g: "get_campaign_by_id twin_world (IdStr ''1'') = Some camp1"
    by (simp add: get_campaign_by_id_def load_campaigns_def twin_world_def demo_world_def
        camp1_def)
  have d: "status camp1 = ''draft''" "campaign_segment_id camp1 = ''1''"
    by (simp_all add: camp1_def)
  have sg: "get_segment_by_id twin_world (IdStr ''1'') = Some adults"
    by (simp add: get_segment_by_id_def load_segments_def twin_world_def demo_world_def
        adults_def)
  have m: "match_customer_rules alice (rules adults)" "match_customer_rules carol (rules adults)"
    by (simp_all add: match_customer_rules_def adults_def no_rules_def alice_def carol_def)
  have lc: "load_customers twin_world = [alice, carol]"
    by (simp add: load_customers_def twin_world_def)
  have au: "get_campaign_customers twin_world (IdStr ''1'') = [alice, carol]"
    by (simp add: get_campaign_customers_def g sg d lc m filter_customers_by_segment_def)
  have rv: "random_values twin_world = (\<lambda>k. 9 / 10)"
    by (simp add: twin_world_def)
  have e0: "load_events twin_world = []"
    by (simp add: load_events_def twin_world_def demo_world_def)
  let ?w1 = "send_to_customer (IdStr ''1'') alice twin_world"
  have n0: "\<not> random_values twin_world (random_calls twin_world) < p_opened"
    by (simp add: rv p_opened_def)
  have 1: "map event_type (load_events ?w1) = [''sent'']"
    "map event_customer_id (load_events ?w1) = [customer_id alice]"
    "map event_campaign_id (load_events ?w1) = [''1'']"
    by (simp_all add: send_to_customer_unopened [OF n0] e0)
  let ?w2 = "send_to_customer (IdStr ''1'') carol ?w1"
  have n1: "\<not> random_values ?w1 (random_calls ?w1) < p_opened"
    by (simp add: rv p_opened_def)
  have 2: "map event_type (load_events ?w2) = [''sent'', ''sent'']"
    "map event_customer_id (load_events ?w2) = [customer_id alice, customer_id carol]"
    "map event_campaign_id (load_events ?w2) = [''1'', ''1'']"
    using 1 by (simp_all add: send_to_customer_unopened [OF n1])
  have ids: "customer_id alice = ''1''" "customer_id carol = ''1''"
    by (simp_all add: alice_def carol_def)
  have l: "load_events (snd (send_campaign (IdStr ''1'') twin_world)) = load_events ?w2"
    by (simp add: send_campaign_draft [OF g d(1)] au load_events_def)
  obtain x y where xy: "load_events ?w2 = [x, y]"
    using 2(1) by (auto simp add: map_eq_Cons_conv)
  have "map event_type
       (filter (\<lambda>e. event_campaign_id e = ''1'' \<and> event_customer_id e = ''1'')
          (load_events ?w2)) = [''sent'', ''sent'']"
    using 2 by (simp add: xy ids)
  moreover have "\<not> prefix [''sent'', ''sent''] funnel_chain"
    by (simp add: funnel_chain_def)
  ultimately show ?thesis
    using g d(1) l by simp
qed

text \<open>
  Claim C7, amended. During a send of a draft campaign, whatever the random source returns,
  the new events are appended in blocks, one per customer of the audience in audience order;
  each block is for that campaign and customer and its event types are a non-empty initial
  part of the chain sent, opened, clicked, converted. Hence an opened event always follows a
  sent event of the same pair, clicked follows opened and converted follows clicked; and
  when the customers of the audience have pairwise different ids, the event types recorded
  for each (campaign_id, customer_id) pair form a prefix of the chain.
\<close>

theorem send_campaign_funnel_order:
  assumes "get_campaign_by_id w cid = Some c" and "status c = ''draft''"
  shows "\<exists>blocks.
      load_events (snd (send_campaign cid w)) = load_events w @ concat blocks
    \<and> list_all2 (\<lambda>cu b. funnel_block (py_str cid) (customer_id cu) b)
        (get_campaign_customers w cid) blocks
    \<and> (distinct (map customer_id (get_campaign_customers w cid)) \<longrightarrow>
         (\<forall>k1 k2. prefix (map event_type
             (filter (\<lambda>e. event_campaign_id e = k1 \<and> event_customer_id e = k2) (concat blocks)))
           funnel_chain))
    \<and> preceded_by ''sent'' ''opened'' [] (concat blocks)
    \<and> preceded_by ''opened'' ''clicked'' [] (concat blocks)
    \<and> preceded_by ''clicked'' ''converted'' [] (concat blocks)"
proof -
  let ?cs = "get_campaign_customers w cid"
  obtain blocks where bl:
    "load_events (send_loop cid ?cs w) = load_events w @ concat blocks"
    "list_all2 (\<lambda>cu b. funnel_block (py_str cid) (customer_id cu) b) ?cs blocks"
    using send_loop_blocks by blast
  have "load_events (snd (send_campaign cid w)) = load_events (send_loop cid ?cs w)"
    using assms by (simp add: send_campaign_draft load_events_def)
  with bl show ?thesis
    using blocks_pair_prefix [OF bl(2)] blocks_preceded [OF bl(2)] by auto
qed

theorem send_campaign_funnel_order_witness:
  "get_campaign_by_id demo_world (IdStr ''1'') = Some camp1
   \<and> status camp1 = ''draft''
   \<and> distinct (map customer_id (get_campaign_customers demo_world (IdStr ''1'')))
   \<and> (\<exists>blocks.
        load_events (snd (send_campaign (IdStr ''1'') demo_world)) = concat blocks
      \<and> list_all2 (\<lambda>cu b. funnel_block ''1'' (customer_id cu) b) [alice, bob] blocks
      \<and> (\<forall>k1 k2. prefix (map event_type
             (filter (\<lambda>e. event_campaign_id e = k1 \<and> event_customer_id e = k2) (concat blocks)))
           funnel_chain)
      \<and> preceded_by ''sent'' ''opened'' [] (concat blocks)
      \<and> preceded_by ''opened'' ''clicked'' [] (concat blocks)
      \<and> preceded_by ''clicked'' ''converted'' [] (concat blocks))"
proof -
  have a: "status camp1 = ''draft''" by (simp add: camp1_def)
  have d: "customer_id alice \<noteq> customer_id bob" by (simp add: alice_def bob_def)
  have e: "load_events demo_world = []" by (simp add: load_events_def demo_world_def)
  show ?thesis
    using send_campaign_funnel_order [OF demo_lookups(1) a]
    by (simp add: demo_lookups a d e demo_audience)
qed

section \<open>Identifiers\<close>





























section \<open>Campaign metrics\<close>

text \<open>
  The error of the float operations: rounding to binary64 changes a non-negative value by at
  most the fraction \<open>2^-53\<close> of it, and \<^verbatim>\<open>round(x, 2)\<close> moves it by at most 0.005 more.
\<close>

lemma round_half_even_error: "\<bar>of_int (round_half_even x) - x\<bar> \<le> 1 / 2"
proof -
  have "of_int \<lfloor>x\<rfloor> \<le> x" "x < of_int \<lfloor>x\<rfloor> + 1" by linarith+
  thus ?thesis
    by (auto simp add: round_half_even_def Let_def abs_le_iff)
qed

lemma round_half_even_nonneg: "0 \<le> x \<Longrightarrow> 0 \<le> round_half_even x"
  by (auto simp add: round_half_even_def Let_def)

lemma ilog2_bounds:
  assumes "0 < x"
  shows "power_int 2 (ilog2 x) \<le> x" and "x < power_int 2 (ilog2 x + 1)"
proof -
  obtain a b where q: "quotient_of x = (a, b)" by (cases "quotient_of x")
  have b: "0 < b" using q by (rule quotient_of_denom_pos)
  have x: "x = of_int a / of_int b" using q by (rule quotient_of_div)
  have a: "0 < a" using assms b x by (simp add: zero_less_divide_iff)
  let ?la = "bitlen a" and ?lb = "bitlen b"
  have la: "1 \<le> ?la" and lb: "1 \<le> ?lb"
    using a b bitlen_eq_zero_iff [of a] bitlen_eq_zero_iff [of b] bitlen_nonneg [of a]
      bitlen_nonneg [of b] by linarith+
  have ba: "(2::rat) ^ nat (?la - 1) \<le> of_int a" "of_int a < (2::rat) ^ nat ?la"
  proof -
    from bitlen_bounds [OF a] have "2 ^ nat (?la - 1) \<le> a" "a < 2 ^ nat ?la" by simp_all
    hence "(of_int (2 ^ nat (?la - 1)) :: rat) \<le> of_int a" "(of_int a :: rat) < of_int (2 ^ nat ?la)"
      by (simp_all only: of_int_le_iff of_int_less_iff)
    thus "(2::rat) ^ nat (?la - 1) \<le> of_int a" "of_int a < (2::rat) ^ nat ?la" by simp_all
  qed
  have bb: "(2::rat) ^ nat (?lb - 1) \<le> of_int b" "of_int b < (2::rat) ^ nat ?lb"
  proof -
    from bitlen_bounds [OF b] have "2 ^ nat (?lb - 1) \<le> b" "b < 2 ^ nat ?lb" by simp_all
    hence "(of_int (2 ^ nat (?lb - 1)) :: rat) \<le> of_int b" "(of_int b :: rat) < of_int (2 ^ nat ?lb)"
      by (simp_all only: of_int_le_iff of_int_less_iff)
    thus "(2::rat) ^ nat (?lb - 1) \<le> of_int b" "of_int b < (2::rat) ^ nat ?lb" by simp_all
  qed
  have pa: "power_int (2::rat) (?la - 1) \<le> of_int a" "of_int a < power_int (2::rat) ?la"
    using ba la by (simp_all add: power_int_def)
  have pb: "power_int (2::rat) (?lb - 1) \<le> of_int b" "of_int b < power_int (2::rat) ?lb"
    using bb lb by (simp_all add: power_int_def)
  let ?k = "?la - ?lb"
  have bpos: "(0::rat) < of_int b" using b by simp
  have up: "x < power_int 2 (?k + 1)"
  proof -
    have "power_int (2::rat) (?k + 1) * power_int 2 (?lb - 1) = power_int 2 ?la"
      by (simp flip: power_int_add)
    moreover have "power_int (2::rat) (?k + 1) * power_int 2 (?lb - 1)
        \<le> power_int 2 (?k + 1) * of_int b"
      using pb(1) by (intro mult_left_mono) simp_all
    ultimately have "of_int a < power_int (2::rat) (?k + 1) * of_int b"
      using pa(2) by linarith
    thus ?thesis using bpos by (simp add: x pos_divide_less_eq)
  qed
  have low: "power_int 2 (?k - 1) < x"
  proof -
    have "power_int (2::rat) (?k - 1) * power_int 2 ?lb = power_int 2 (?la - 1)"
      by (simp flip: power_int_add)
    moreover have "power_int (2::rat) (?k - 1) * of_int b < power_int 2 (?k - 1) * power_int 2 ?lb"
      using pb(2) by (intro mult_strict_left_mono) simp_all
    ultimately have "power_int (2::rat) (?k - 1) * of_int b < of_int a"
      using pa(1) by linarith
    thus ?thesis using bpos by (simp add: x pos_less_divide_eq)
  qed
  have i: "ilog2 x = (if x < power_int 2 ?k then ?k - 1 else ?k)"
    by (simp add: ilog2_def q Let_def)
  show "power_int 2 (ilog2 x) \<le> x"
    using low by (simp add: i)
  show "x < power_int 2 (ilog2 x + 1)"
    using up by (simp add: i)
qed

lemma float_round_error:
  assumes "0 \<le> x"
  shows "\<bar>float_round x - x\<bar> \<le> x / 2 ^ 53"
proof (cases "x = 0")
  case True
  thus ?thesis by (simp add: float_round_def)
next
  case False
  with assms have pos: "0 < x" by simp
  let ?e = "ilog2 x - 52"
  let ?p = "power_int (2::rat) ?e"
  have p: "0 < ?p" by simp
  have f: "float_round x = of_int (round_half_even (x / ?p)) * ?p"
    using pos by (simp add: float_round_def Let_def)
  have "\<bar>of_int (round_half_even (x / ?p)) - x / ?p\<bar> \<le> 1 / 2"
    by (rule round_half_even_error)
  hence "\<bar>of_int (round_half_even (x / ?p)) - x / ?p\<bar> * ?p \<le> 1 / 2 * ?p"
    using p by (intro mult_right_mono) simp_all
  moreover have "\<bar>of_int (round_half_even (x / ?p)) - x / ?p\<bar> * ?p
      = \<bar>of_int (round_half_even (x / ?p)) * ?p - x\<bar>"
  proof -
    have "\<bar>of_int (round_half_even (x / ?p)) - x / ?p\<bar> * ?p
        = \<bar>(of_int (round_half_even (x / ?p)) - x / ?p) * ?p\<bar>"
      using p by (simp add: abs_mult)
    also have "(of_int (round_half_even (x / ?p)) - x / ?p) * ?p
        = of_int (round_half_even (x / ?p)) * ?p - x"
      using p by (simp add: left_diff_distrib)
    finally show ?thesis .
  qed
  ultimately have e1: "\<bar>float_round x - x\<bar> \<le> ?p / 2" by (simp add: f)
  have "?p * 2 ^ 52 = power_int 2 (ilog2 x)"
  proof -
    have "power_int (2::rat) (ilog2 x) = power_int 2 (?e + 52)" by simp
    also have "\<dots> = ?p * power_int 2 52" by (rule power_int_add) simp
    finally show ?thesis by simp
  qed
  with ilog2_bounds(1) [OF pos] have "?p * 2 ^ 52 \<le> x" by simp
  hence "?p / 2 \<le> x / 2 ^ 53" by (simp add: field_simps)
  with e1 show ?thesis by linarith
qed

lemma float_round_nonneg: "0 \<le> x \<Longrightarrow> 0 \<le> float_round x"
  by (auto simp add: float_round_def Let_def intro!: mult_nonneg_nonneg
      round_half_even_nonneg divide_nonneg_pos)

lemma rate_error:
  assumes "0 \<le> q"
  shows "\<bar>py_round2 (py_float_mul (float_round q) 100) - 100 * q\<bar>
           \<le> 1 / 200 + (400 * q + 1) / 2 ^ 53"
proof -
  define x1 where "x1 = float_round q"
  define x2 where "x2 = float_round (x1 * 100)"
  define d where "d = (of_int (round_half_even (x2 * 100)) :: rat) / 100"
  define r where "r = float_round d"
  have n1: "0 \<le> x1" unfolding x1_def using assms by (rule float_round_nonneg)
  have h1: "\<bar>x1 - q\<bar> \<le> q / 2 ^ 53" unfolding x1_def using assms by (rule float_round_error)
  have n1': "0 \<le> x1 * 100" using n1 by simp
  have n2: "0 \<le> x2" unfolding x2_def using n1' by (rule float_round_nonneg)
  have h2: "\<bar>x2 - x1 * 100\<bar> \<le> x1 * 100 / 2 ^ 53"
    unfolding x2_def using n1' by (rule float_round_error)
  have n3: "0 \<le> d"
    unfolding d_def using n2 by (simp add: round_half_even_nonneg)
  have "\<bar>of_int (round_half_even (x2 * 100)) - x2 * 100\<bar> \<le> 1 / 2"
    by (rule round_half_even_error)
  hence h3: "\<bar>d - x2\<bar> \<le> 1 / 200"
    unfolding d_def by (simp add: abs_le_iff field_simps)
  have h4: "\<bar>r - d\<bar> \<le> d / 2 ^ 53" unfolding r_def using n3 by (rule float_round_error)
  have e: "(2::rat) ^ 53 = 9007199254740992" by simp
  have a1: "x1 \<le> q + q / 9007199254740992" "q - q / 9007199254740992 \<le> x1"
    using h1 unfolding e abs_le_iff by (simp_all add: field_simps)
  have a2: "x2 \<le> x1 * 100 + x1 * 100 / 9007199254740992"
    "x1 * 100 - x1 * 100 / 9007199254740992 \<le> x2"
    using h2 unfolding e abs_le_iff by (simp_all add: field_simps)
  have a3: "d \<le> x2 + 1 / 200" "x2 - 1 / 200 \<le> d"
    using h3 unfolding abs_le_iff by (simp_all add: field_simps)
  have a4: "r \<le> d + d / 9007199254740992" "d - d / 9007199254740992 \<le> r"
    using h4 unfolding e abs_le_iff by (simp_all add: field_simps)
  have up: "r - 100 * q \<le> 1 / 200 + (400 * q + 1) / 9007199254740992"
    using assms a1(1) a2(1) a3(1) a4(1) by (simp add: field_simps)
  have lo: "100 * q - r \<le> 1 / 200 + (400 * q + 1) / 9007199254740992"
    using assms a1(2) a2(2) a3(2) a4(2) by (simp add: field_simps)
  have "\<bar>r - 100 * q\<bar> \<le> 1 / 200 + (400 * q + 1) / 2 ^ 53"
    unfolding e abs_le_iff using up lo by simp
  thus ?thesis
    by (simp add: py_round2_def py_float_mul_def r_def d_def x2_def x1_def)
qed

lemma rate_error_counts:
  "\<bar>py_round2 (py_float_mul (py_truediv (int a) (int b)) 100) - 100 * (of_nat a / of_nat b)\<bar>
     \<le> 1 / 200 + (400 * (of_nat a / of_nat b) + 1) / 2 ^ 53"
  using rate_error [of "of_nat a / of_nat b"] by (simp add: py_truediv_def)

lemma rate_two_places:
  assumes "0 \<le> q"
  shows "\<exists>k::int. py_round2 (py_float_mul (float_round q) 100) = float_round (of_int k / 100)
           \<and> \<bar>of_int k / 100 - 100 * q\<bar> \<le> 1 / 200 + 201 * q / 2 ^ 53"
proof -
  define x1 where "x1 = float_round q"
  define x2 where "x2 = float_round (x1 * 100)"
  define k where "k = round_half_even (x2 * 100)"
  define d where "d = (of_int k :: rat) / 100"
  have n1: "0 \<le> x1" unfolding x1_def using assms by (rule float_round_nonneg)
  have h1: "\<bar>x1 - q\<bar> \<le> q / 2 ^ 53" unfolding x1_def using assms by (rule float_round_error)
  have n1': "0 \<le> x1 * 100" using n1 by simp
  have h2: "\<bar>x2 - x1 * 100\<bar> \<le> x1 * 100 / 2 ^ 53"
    unfolding x2_def using n1' by (rule float_round_error)
  have "\<bar>of_int (round_half_even (x2 * 100)) - x2 * 100\<bar> \<le> 1 / 2"
    by (rule round_half_even_error)
  hence h3: "\<bar>d - x2\<bar> \<le> 1 / 200"
    unfolding d_def k_def by (simp add: abs_le_iff field_simps)
  have e: "(2::rat) ^ 53 = 9007199254740992" by simp
  have a1: "x1 \<le> q + q / 9007199254740992" "q - q / 9007199254740992 \<le> x1"
    using h1 unfolding e abs_le_iff by (simp_all add: field_simps)
  have a2: "x2 \<le> x1 * 100 + x1 * 100 / 9007199254740992"
    "x1 * 100 - x1 * 100 / 9007199254740992 \<le> x2"
    using h2 unfolding e abs_le_iff by (simp_all add: field_simps)
  have a3: "d \<le> x2 + 1 / 200" "x2 - 1 / 200 \<le> d"
    using h3 unfolding abs_le_iff by (simp_all add: field_simps)
  have up: "d - 100 * q \<le> 1 / 200 + 201 * q / 9007199254740992"
    using assms a1(1) a2(1) a3(1) by (simp add: field_simps)
  have lo: "100 * q - d \<le> 1 / 200 + 201 * q / 9007199254740992"
    using assms a1(2) a2(2) a3(2) by (simp add: field_simps)
  have "\<bar>d - 100 * q\<bar> \<le> 1 / 200 + 201 * q / 2 ^ 53"
    unfolding e abs_le_iff using up lo by simp
  moreover have "py_round2 (py_float_mul (float_round q) 100) = float_round d"
    by (simp add: py_round2_def py_float_mul_def d_def k_def x2_def x1_def)
  ultimately show ?thesis
    unfolding d_def by blast
qed

lemma rate_two_places_counts:
  "\<exists>k::int. py_round2 (py_float_mul (py_truediv (int a) (int b)) 100)
               = float_round (of_int k / 100)
     \<and> \<bar>(of_int k :: rat) / 100 - 100 * (of_nat a / of_nat b)\<bar>
           \<le> 1 / 200 + 201 * (of_nat a / of_nat b) / 2 ^ 53"
  using rate_two_places [of "of_nat a / of_nat b"] by (simp add: py_truediv_def)

lemma rate_6667: "py_round2 (py_float_mul (py_truediv 2 3) 100) = float_round (6667 / 100)"
  by code_simp

lemma rate_3333: "py_round2 (py_float_mul (py_truediv 1 3) 100) = float_round (3333 / 100)"
  by code_simp

lemma product_not_rounded: "py_float_mul (py_truediv 2 3) 100 \<noteq> float_round (6667 / 100)"
  by code_simp

lemma py_round2_zero: "py_round2 0 = 0"
  by (simp add: py_round2_def round_half_even_def float_round_def)

lemma rate_70: "py_round2 (py_float_mul (py_truediv 7 10) 100) = 70"
  by code_simp

lemma rate_40: "py_round2 (py_float_mul (py_truediv 4 10) 100) = 40"
  by code_simp

lemma rate_20: "py_round2 (py_float_mul (py_truediv 2 10) 100) = 20"
  by code_simp

lemma metrics_counts:
  "sent (get_campaign_metrics w cid) = count_events (load_events w) (py_str cid) ''sent''"
  "opened (get_campaign_metrics w cid) = count_events (load_events w) (py_str cid) ''opened''"
  "clicked (get_campaign_metrics w cid) = count_events (load_events w) (py_str cid) ''clicked''"
  "converted (get_campaign_metrics w cid)
     = count_events (load_events w) (py_str cid) ''converted''"
  by (simp_all add: get_campaign_metrics_def count_events_def Let_def)

lemma metrics_rates:
  "open_rate (get_campaign_metrics w cid) =
     (if sent (get_campaign_metrics w cid) > 0
      then py_round2 (py_float_mul (py_truediv (int (opened (get_campaign_metrics w cid)))
             (int (sent (get_campaign_metrics w cid)))) 100)
      else 0)"
  "click_rate (get_campaign_metrics w cid) =
     (if sent (get_campaign_metrics w cid) > 0
      then py_round2 (py_float_mul (py_truediv (int (clicked (get_campaign_metrics w cid)))
             (int (sent (get_campaign_metrics w cid)))) 100)
      else 0)"
  "conversion_rate (get_campaign_metrics w cid) =
     (if sent (get_campaign_metrics w cid) > 0
      then py_round2 (py_float_mul (py_truediv (int (converted (get_campaign_metrics w cid)))
             (int (sent (get_campaign_metrics w cid)))) 100)
      else 0)"
  by (simp_all add: get_campaign_metrics_def Let_def py_round2_zero)

lemma count_events_none:
  "\<forall>e \<in> set evs. event_campaign_id e \<noteq> camp \<Longrightarrow> count_events evs camp ty = 0"
  by (simp add: count_events_def filter_empty_conv)

text \<open>
  Claim C3. For every event collection and campaign id, \<^verbatim>\<open>get_campaign_metrics\<close> counts the
  events of each of the four types whose \<open>campaign_id\<close> equals the string form of the given
  id. When \<open>sent\<close> is 0 the three rates are 0. Otherwise each rate is the count divided by
  \<open>sent\<close>, times 100, rounded to two decimal places, computed in binary64 as the code
  does: the rate is the float of a decimal number \<open>k / 100\<close> with two places, and that decimal
  is within 0.005 of the exact percentage, up to the relative error \<open>2^-53\<close> of the two
  float operations before the rounding. With 10 sent, 7 opened, 4 clicked and 2 converted
  events the rates are 70.0, 40.0 and 20.0, and a campaign without events has all counts 0
  and all rates 0.
\<close>

theorem get_campaign_metrics_rates:
  "sent (get_campaign_metrics w cid) = count_events (load_events w) (py_str cid) ''sent''
   \<and> opened (get_campaign_metrics w cid) = count_events (load_events w) (py_str cid) ''opened''
   \<and> clicked (get_campaign_metrics w cid) = count_events (load_events w) (py_str cid) ''clicked''
   \<and> converted (get_campaign_metrics w cid)
       = count_events (load_events w) (py_str cid) ''converted''
   \<and> (sent (get_campaign_metrics w cid) = 0 \<longrightarrow>
         open_rate (get_campaign_metrics w cid) = 0
       \<and> click_rate (get_campaign_metrics w cid) = 0
       \<and> conversion_rate (get_campaign_metrics w cid) = 0)
   \<and> (sent (get_campaign_metrics w cid) > 0 \<longrightarrow>
         open_rate (get_campaign_metrics w cid)
           = py_round2 (py_float_mul (py_truediv (int (opened (get_campaign_metrics w cid)))
               (int (sent (get_campaign_metrics w cid)))) 100)
       \<and> click_rate (get_campaign_metrics w cid)
           = py_round2 (py_float_mul (py_truediv (int (clicked (get_campaign_metrics w cid)))
               (int (sent (get_campaign_metrics w cid)))) 100)
       \<and> conversion_rate (get_campaign_metrics w cid)
           = py_round2 (py_float_mul (py_truediv (int (converted (get_campaign_metrics w cid)))
               (int (sent (get_campaign_metrics w cid)))) 100))
   \<and> (sent (get_campaign_metrics w cid) = 10 \<and> opened (get_campaign_metrics w cid) = 7
       \<and> clicked (get_campaign_metrics w cid) = 4 \<and> converted (get_campaign_metrics w cid) = 2
       \<longrightarrow> open_rate (get_campaign_metrics w cid) = 70
         \<and> click_rate (get_campaign_metrics w cid) = 40
         \<and> conversion_rate (get_campaign_metrics w cid) = 20)
   \<and> ((\<forall>e \<in> set (load_events w). event_campaign_id e \<noteq> py_str cid) \<longrightarrow>
         sent (get_campaign_metrics w cid) = 0 \<and> opened (get_campaign_metrics w cid) = 0
       \<and> clicked (get_campaign_metrics w cid) = 0 \<and> converted (get_campaign_metrics w cid) = 0
       \<and> open_rate (get_campaign_metrics w cid) = 0
       \<and> click_rate (get_campaign_metrics w cid) = 0
       \<and> conversion_rate (get_campaign_metrics w cid) = 0)
   \<and> (sent (get_campaign_metrics w cid) > 0 \<longrightarrow>
         \<bar>open_rate (get_campaign_metrics w cid)
            - 100 * (of_nat (opened (get_campaign_metrics w cid))
                     / of_nat (sent (get_campaign_metrics w cid)))\<bar>
           \<le> 1 / 200 + (400 * (of_nat (opened (get_campaign_metrics w cid))
                     / of_nat (sent (get_campaign_metrics w cid))) + 1) / 2 ^ 53
       \<and> \<bar>click_rate (get_campaign_metrics w cid)
            - 100 * (of_nat (clicked (get_campaign_metrics w cid))
                     / of_nat (sent (get_campaign_metrics w cid)))\<bar>
           \<le> 1 / 200 + (400 * (of_nat (clicked (get_campaign_metrics w cid))
                     / of_nat (sent (get_campaign_metrics w cid))) + 1) / 2 ^ 53
       \<and> \<bar>conversion_rate (get_campaign_metrics w cid)
            - 100 * (of_nat (converted (get_campaign_metrics w cid))
                     / of_nat (sent (get_campaign_metrics w cid)))\<bar>
           \<le> 1 / 200 + (400 * (of_nat (converted (get_campaign_metrics w cid))
                     / of_nat (sent (get_campaign_metrics w cid))) + 1) / 2 ^ 53)
   \<and> (sent (get_campaign_metrics w cid) > 0 \<longrightarrow>
         (\<exists>k::int. open_rate (get_campaign_metrics w cid) = float_round (of_int k / 100)
            \<and> \<bar>(of_int k :: rat) / 100 - 100 * (of_nat (opened (get_campaign_metrics w cid))
                     / of_nat (sent (get_campaign_metrics w cid)))\<bar>
                 \<le> 1 / 200 + 201 * (of_nat (opened (get_campaign_metrics w cid))
                     / of_nat (sent (get_campaign_metrics w cid))) / 2 ^ 53)
       \<and> (\<exists>k::int. click_rate (get_campaign_metrics w cid) = float_round (of_int k / 100)
            \<and> \<bar>(of_int k :: rat) / 100 - 100 * (of_nat (clicked (get_campaign_metrics w cid))
                     / of_nat (sent (get_campaign_metrics w cid)))\<bar>
                 \<le> 1 / 200 + 201 * (of_nat (clicked (get_campaign_metrics w cid))
                     / of_nat (sent (get_campaign_metrics w cid))) / 2 ^ 53)
       \<and> (\<exists>k::int. conversion_rate (get_campaign_metrics w cid) = float_round (of_int k / 100)
            \<and> \<bar>(of_int k :: rat) / 100 - 100 * (of_nat (converted (get_campaign_metrics w cid))
                     / of_nat (sent (get_campaign_metrics w cid)))\<bar>
                 \<le> 1 / 200 + 201 * (of_nat (converted (get_campaign_metrics w cid))
                     / of_nat (sent (get_campaign_metrics w cid))) / 2 ^ 53))"
proof -
  let ?m = "get_campaign_metrics w cid"
  have ex: "open_rate ?m = 70 \<and> click_rate ?m = 40 \<and> conversion_rate ?m = 20"
    if "sent ?m = 10" "opened ?m = 7" "clicked ?m = 4" "converted ?m = 2"
    by (simp add: metrics_rates [of w cid] that rate_70 rate_40 rate_20)
  have z: "open_rate ?m = 0 \<and> click_rate ?m = 0 \<and> conversion_rate ?m = 0" if "sent ?m = 0"
    by (simp add: metrics_rates [of w cid] that)
  have n: "sent ?m = 0 \<and> opened ?m = 0 \<and> clicked ?m = 0 \<and> converted ?m = 0"
    if "\<forall>e \<in> set (load_events w). event_campaign_id e \<noteq> py_str cid"
    by (simp add: metrics_counts count_events_none [OF that])
  have p: "sent ?m > 0 \<Longrightarrow>
         open_rate ?m = py_round2 (py_float_mul (py_truediv (int (opened ?m)) (int (sent ?m))) 100)
       \<and> click_rate ?m = py_round2 (py_float_mul (py_truediv (int (clicked ?m)) (int (sent ?m))) 100)
       \<and> conversion_rate ?m
           = py_round2 (py_float_mul (py_truediv (int (converted ?m)) (int (sent ?m))) 100)"
    using metrics_rates [of w cid] by simp
  have nz: "open_rate ?m = 0 \<and> click_rate ?m = 0 \<and> conversion_rate ?m = 0"
    if "\<forall>e \<in> set (load_events w). event_campaign_id e \<noteq> py_str cid"
    using n [OF that] z by simp
  show ?thesis
    apply (intro conjI impI)
    subgoal by (rule metrics_counts)
    subgoal by (rule metrics_counts)
    subgoal by (rule metrics_counts)
    subgoal by (rule metrics_counts)
    subgoal using z by simp
    subgoal using z by simp
    subgoal using z by simp
    subgoal using p by simp
    subgoal using p by simp
    subgoal using p by simp
    subgoal using ex by simp
    subgoal using ex by simp
    subgoal using ex by simp
    subgoal using n by simp
    subgoal using n by simp
    subgoal using n by simp
    subgoal using n by simp
    subgoal using nz by simp
    subgoal using nz by simp
    subgoal using nz by simp
    subgoal using p rate_error_counts [of "opened ?m" "sent ?m"] by simp
    subgoal using p rate_error_counts [of "clicked ?m" "sent ?m"] by simp
    subgoal using p rate_error_counts [of "converted ?m" "sent ?m"] by simp
    subgoal using p rate_two_places_counts [of "opened ?m" "sent ?m"] by simp
    subgoal using p rate_two_places_counts [of "clicked ?m" "sent ?m"] by simp
    subgoal using p rate_two_places_counts [of "converted ?m" "sent ?m"] by simp
    done
qed

theorem get_campaign_metrics_rates_witness:
  "sent (get_campaign_metrics metrics_world (IdInt 7)) = 10
   \<and> opened (get_campaign_metrics metrics_world (IdInt 7)) = 7
   \<and> clicked (get_campaign_metrics metrics_world (IdInt 7)) = 4
   \<and> converted (get_campaign_metrics metrics_world (IdInt 7)) = 2
   \<and> open_rate (get_campaign_metrics metrics_world (IdInt 7)) = 70
   \<and> click_rate (get_campaign_metrics metrics_world (IdInt 7)) = 40
   \<and> conversion_rate (get_campaign_metrics metrics_world (IdInt 7)) = 20
   \<and> sent (get_campaign_metrics metrics_world (IdStr ''999'')) = 0
   \<and> open_rate (get_campaign_metrics metrics_world (IdStr ''999'')) = 0
   \<and> click_rate (get_campaign_metrics metrics_world (IdStr ''999'')) = 0
   \<and> conversion_rate (get_campaign_metrics metrics_world (IdStr ''999'')) = 0
   \<and> sent (get_campaign_metrics thirds_world (IdInt 7)) = 3
   \<and> opened (get_campaign_metrics thirds_world (IdInt 7)) = 2
   \<and> clicked (get_campaign_metrics thirds_world (IdInt 7)) = 1
   \<and> open_rate (get_campaign_metrics thirds_world (IdInt 7)) = float_round (6667 / 100)
   \<and> click_rate (get_campaign_metrics thirds_world (IdInt 7)) = float_round (3333 / 100)
   \<and> open_rate (get_campaign_metrics thirds_world (IdInt 7))
       \<noteq> py_float_mul (py_truediv 2 3) 100"
proof -
  have s: "str_int 7 = ''7''"
    by (simp add: str_int_def str_nat.simps digit_char_def)
  have l: "load_events metrics_world = map (funnel_event ''sent'') [0..<10]
        @ map (funnel_event ''opened'') [0..<7] @ map (funnel_event ''clicked'') [0..<4]
        @ map (funnel_event ''converted'') [0..<2]"
    by (simp add: load_events_def metrics_world_def)
  have c: "count_events (load_events metrics_world) ''7'' ''sent'' = 10"
    "count_events (load_events metrics_world) ''7'' ''opened'' = 7"
    "count_events (load_events metrics_world) ''7'' ''clicked'' = 4"
    "count_events (load_events metrics_world) ''7'' ''converted'' = 2"
    by (simp_all add: l count_events_def filter_map o_def funnel_event_def)
  have n: "\<forall>e \<in> set (load_events metrics_world). event_campaign_id e \<noteq> ''999''"
    by (auto simp add: l funnel_event_def)
  have l3: "load_events thirds_world = map (funnel_event ''sent'') [0..<3]
        @ map (funnel_event ''opened'') [0..<2] @ map (funnel_event ''clicked'') [0..<1]"
    by (simp add: load_events_def thirds_world_def)
  have c3: "count_events (load_events thirds_world) ''7'' ''sent'' = 3"
    "count_events (load_events thirds_world) ''7'' ''opened'' = 2"
    "count_events (load_events thirds_world) ''7'' ''clicked'' = 1"
    by (simp_all add: l3 count_events_def filter_map o_def funnel_event_def)
  note t = get_campaign_metrics_rates [of metrics_world "IdInt 7"]
  note u = get_campaign_metrics_rates [of metrics_world "IdStr ''999''"]
  note v = get_campaign_metrics_rates [of thirds_world "IdInt 7"]
  have k: "sent (get_campaign_metrics metrics_world (IdInt 7)) = 10"
    "opened (get_campaign_metrics metrics_world (IdInt 7)) = 7"
    "clicked (get_campaign_metrics metrics_world (IdInt 7)) = 4"
    "converted (get_campaign_metrics metrics_world (IdInt 7)) = 2"
    using t [THEN conjunct1] t [THEN conjunct2, THEN conjunct1]
      t [THEN conjunct2, THEN conjunct2, THEN conjunct1]
      t [THEN conjunct2, THEN conjunct2, THEN conjunct2, THEN conjunct1]
    by (simp_all add: s c)
  have r: "open_rate (get_campaign_metrics metrics_world (IdInt 7)) = 70
      \<and> click_rate (get_campaign_metrics metrics_world (IdInt 7)) = 40
      \<and> conversion_rate (get_campaign_metrics metrics_world (IdInt 7)) = 20"
    using t [THEN conjunct2, THEN conjunct2, THEN conjunct2, THEN conjunct2, THEN conjunct2,
        THEN conjunct2, THEN conjunct1] k
    by simp
  have z: "sent (get_campaign_metrics metrics_world (IdStr ''999'')) = 0
      \<and> opened (get_campaign_metrics metrics_world (IdStr ''999'')) = 0
      \<and> clicked (get_campaign_metrics metrics_world (IdStr ''999'')) = 0
      \<and> converted (get_campaign_metrics metrics_world (IdStr ''999'')) = 0
      \<and> open_rate (get_campaign_metrics metrics_world (IdStr ''999'')) = 0
      \<and> click_rate (get_campaign_metrics metrics_world (IdStr ''999'')) = 0
      \<and> conversion_rate (get_campaign_metrics metrics_world (IdStr ''999'')) = 0"
    using u [THEN conjunct2, THEN conjunct2, THEN conjunct2, THEN conjunct2, THEN conjunct2,
        THEN conjunct2, THEN conjunct2, THEN conjunct1] n
    by simp
  have k3: "sent (get_campaign_metrics thirds_world (IdInt 7)) = 3"
    "opened (get_campaign_metrics thirds_world (IdInt 7)) = 2"
    "clicked (get_campaign_metrics thirds_world (IdInt 7)) = 1"
    using v [THEN conjunct1] v [THEN conjunct2, THEN conjunct1]
      v [THEN conjunct2, THEN conjunct2, THEN conjunct1]
    by (simp_all add: s c3)
  have r3: "open_rate (get_campaign_metrics thirds_world (IdInt 7)) = float_round (6667 / 100)
      \<and> click_rate (get_campaign_metrics thirds_world (IdInt 7)) = float_round (3333 / 100)"
    using v [THEN conjunct2, THEN conjunct2, THEN conjunct2, THEN conjunct2, THEN conjunct2,
        THEN conjunct1] k3
    by (simp add: rate_6667 rate_3333)
  from k r z k3 r3 product_not_rounded show ?thesis by simp
qed

end
